theory Spec2Isabelle
  imports Complex_Main "HOL-Library.Multiset"
begin

section \<open>JavaScript string primitives used by the server\<close>

text \<open>
  The server (server/index.ts) works on JavaScript strings. They are modelled as
  \<^typ>\<open>string\<close>; every primitive below follows the ECMAScript definition of the
  method it is named after, restricted to the argument shapes the server passes.
\<close>

text \<open>\<^verbatim>\<open>s.startsWith(p)\<close>\<close>

fun startsWith :: "string \<Rightarrow> string \<Rightarrow> bool" where
  "startsWith s [] = True"
| "startsWith [] (p # ps) = False"
| "startsWith (c # cs) (p # ps) = (c = p \<and> startsWith cs ps)"


text \<open>
  \<^verbatim>\<open>s.lastIndexOf(c)\<close> for a one-character search string: the index of the last
  occurrence, \<open>-1\<close> when there is none. The scan keeps the running index and the last
  hit seen so far.
\<close>

fun lastIndexOf_scan :: "char \<Rightarrow> string \<Rightarrow> int \<Rightarrow> int \<Rightarrow> int" where
  "lastIndexOf_scan c [] i hit = hit"
| "lastIndexOf_scan c (x # xs) i hit = lastIndexOf_scan c xs (i + 1) (if x = c then i else hit)"

definition lastIndexOf :: "string \<Rightarrow> char \<Rightarrow> int" where
  "lastIndexOf s c = lastIndexOf_scan c s 0 (- 1)"

text \<open>
  \<^verbatim>\<open>s.substring(a, b)\<close>: both indices are clamped to \<open>[0, length]\<close> and swapped when
  \<open>a > b\<close>.
\<close>

definition substring :: "string \<Rightarrow> int \<Rightarrow> int \<Rightarrow> string" where
  "substring s a b =
     (let n = int (length s);
          a' = min (max a 0) n;
          b' = min (max b 0) n;
          lo = min a' b';
          hi = max a' b'
      in take (nat (hi - lo)) (drop (nat lo) s))"


text \<open>\<^verbatim>\<open>s.replace(/\/+$/, '')\<close>: a trailing run of slashes is removed.\<close>

definition strip_trailing_slashes :: "string \<Rightarrow> string" where
  "strip_trailing_slashes s = rev (dropWhile (\<lambda>c. c = CHR ''/'') (rev s))"

text \<open>
  \<^verbatim>\<open>s.split('/').pop()\<close>: the segment after the last slash (the whole string when
  there is none; the empty string when \<open>s\<close> ends in a slash).
\<close>

definition split_pop :: "string \<Rightarrow> string" where
  "split_pop s = rev (takeWhile (\<lambda>c. c \<noteq> CHR ''/'') (rev s))"

text \<open>
  A template literal renders an absent (\<^verbatim>\<open>undefined\<close>) value as the text
  \<^verbatim>\<open>undefined\<close>.
\<close>

definition tmpl :: "string option \<Rightarrow> string" where
  "tmpl v = (case v of None \<Rightarrow> ''undefined'' | Some s \<Rightarrow> s)"

text \<open>A JavaScript string is truthy when it is present and not empty.\<close>

definition truthy :: "string option \<Rightarrow> bool" where
  "truthy v = (case v of None \<Rightarrow> False | Some s \<Rightarrow> s \<noteq> [])"


section \<open>Configuration (S3Config, GET and POST /api/config)\<close>

datatype StorageType = Aws | S3Compatible

record S3Config =
  storageType :: StorageType
  endpoint :: "string option"
  accessKey :: string
  secretKey :: string
  bucket :: "string option"
  region :: "string option"
  oscToken :: string

text \<open>The JSON object answered by GET /api/config.\<close>

record ConfigView =
  v_storageType :: StorageType
  v_endpoint :: "string option"
  v_region :: "string option"
  v_bucket :: "string option"
  v_accessKey :: string
  v_secretKey :: string
  v_oscToken :: string

definition mask :: "string \<Rightarrow> string" where
  "mask secret = (if secret \<noteq> [] then ''****'' else [])"

definition get_config :: "S3Config \<Rightarrow> ConfigView" where
  "get_config serverConfig =
     \<lparr> v_storageType = storageType serverConfig,
       v_endpoint = endpoint serverConfig,
       v_region = region serverConfig,
       v_bucket = bucket serverConfig,
       v_accessKey = mask (accessKey serverConfig),
       v_secretKey = mask (secretKey serverConfig),
       v_oscToken = mask (oscToken serverConfig) \<rparr>"

text \<open>
  The body of POST /api/config; a field that is not sent is \<open>None\<close>
  (\<^verbatim>\<open>undefined\<close> after destructuring).
\<close>

record ConfigBody =
  b_storageType :: "StorageType option"
  b_endpoint :: "string option"
  b_region :: "string option"
  b_bucket :: "string option"
  b_accessKey :: "string option"
  b_secretKey :: "string option"
  b_oscToken :: "string option"

definition cleanBucket :: "string \<Rightarrow> string" where
  "cleanBucket b =
     strip_trailing_slashes
       (if startsWith b ''s3://'' then substring b 5 (int (length b)) else b)"

text \<open>
  POST /api/config updates the stored configuration one statement at a time; each
  definition below is one \<^verbatim>\<open>if\<close> statement of the handler, in source order.
\<close>

definition post_storageType :: "StorageType option \<Rightarrow> S3Config \<Rightarrow> S3Config" where
  "post_storageType v serverConfig =
     (case v of
        None \<Rightarrow> serverConfig
      | Some S3Compatible \<Rightarrow> serverConfig\<lparr>storageType := S3Compatible, bucket := None\<rparr>
      | Some Aws \<Rightarrow> serverConfig\<lparr>storageType := Aws, endpoint := None\<rparr>)"

definition post_endpoint :: "string option \<Rightarrow> S3Config \<Rightarrow> S3Config" where
  "post_endpoint v serverConfig =
     (case v of None \<Rightarrow> serverConfig | Some e \<Rightarrow> serverConfig\<lparr>endpoint := Some e\<rparr>)"

definition post_region :: "string option \<Rightarrow> S3Config \<Rightarrow> S3Config" where
  "post_region v serverConfig =
     (case v of None \<Rightarrow> serverConfig | Some r \<Rightarrow> serverConfig\<lparr>region := Some r\<rparr>)"

definition post_bucket :: "string option \<Rightarrow> S3Config \<Rightarrow> S3Config" where
  "post_bucket v serverConfig =
     (case v of None \<Rightarrow> serverConfig | Some b \<Rightarrow> serverConfig\<lparr>bucket := Some (cleanBucket b)\<rparr>)"

definition post_accessKey :: "string option \<Rightarrow> S3Config \<Rightarrow> S3Config" where
  "post_accessKey v serverConfig =
     (case v of
        None \<Rightarrow> serverConfig
      | Some k \<Rightarrow> if k \<noteq> ''****'' then serverConfig\<lparr>accessKey := k\<rparr> else serverConfig)"

definition post_secretKey :: "string option \<Rightarrow> S3Config \<Rightarrow> S3Config" where
  "post_secretKey v serverConfig =
     (case v of
        None \<Rightarrow> serverConfig
      | Some k \<Rightarrow> if k \<noteq> ''****'' then serverConfig\<lparr>secretKey := k\<rparr> else serverConfig)"

definition post_oscToken :: "string option \<Rightarrow> S3Config \<Rightarrow> S3Config" where
  "post_oscToken v serverConfig =
     (case v of
        None \<Rightarrow> serverConfig
      | Some k \<Rightarrow> if k \<noteq> ''****'' then serverConfig\<lparr>oscToken := k\<rparr> else serverConfig)"

definition post_config :: "S3Config \<Rightarrow> ConfigBody \<Rightarrow> S3Config" where
  "post_config serverConfig body =
     post_oscToken (b_oscToken body)
       (post_secretKey (b_secretKey body)
         (post_accessKey (b_accessKey body)
           (post_bucket (b_bucket body)
             (post_region (b_region body)
               (post_endpoint (b_endpoint body)
                 (post_storageType (b_storageType body) serverConfig))))))"

text \<open>
  A client that posts back what it fetched sends every field of the view that the JSON
  response carried; an \<^verbatim>\<open>undefined\<close> endpoint, region or bucket is dropped by
  \<^verbatim>\<open>res.json\<close> and so is not sent.
\<close>

definition body_of_view :: "ConfigView \<Rightarrow> ConfigBody" where
  "body_of_view v =
     \<lparr> b_storageType = Some (v_storageType v),
       b_endpoint = v_endpoint v,
       b_region = v_region v,
       b_bucket = v_bucket v,
       b_accessKey = Some (v_accessKey v),
       b_secretKey = Some (v_secretKey v),
       b_oscToken = Some (v_oscToken v) \<rparr>"

text \<open>
  Two configurations look alike to an observer of GET /api/config when they agree on the
  public fields and on which secrets are empty.
\<close>

definition same_public :: "S3Config \<Rightarrow> S3Config \<Rightarrow> bool" where
  "same_public c d =
     (storageType c = storageType d \<and> endpoint c = endpoint d \<and> region c = region d \<and>
      bucket c = bucket d \<and>
      (accessKey c = []) = (accessKey d = []) \<and>
      (secretKey c = []) = (secretKey d = []) \<and>
      (oscToken c = []) = (oscToken d = []))"


section \<open>The raw result key\<close>

text \<open>
  The three places that locate the raw report each compute
  \<^verbatim>\<open>resultKey.substring(0, resultKey.lastIndexOf('/') + 1)\<close> and then
  \<^verbatim>\<open>`${folder}${oscJobName}.json`\<close>: the poll loop (score extraction), GET
  /api/results/:jobId and GET /api/results/:jobId/raw. The DELETE handler does the same.
\<close>

definition poll_resultFileKey :: "string \<Rightarrow> string option \<Rightarrow> string" where
  "poll_resultFileKey resultKey oscJobName =
     (let folder = substring resultKey 0 (lastIndexOf resultKey CHR ''/'' + 1)
      in folder @ tmpl oscJobName @ ''.json'')"

definition results_resultFileKey :: "string \<Rightarrow> string option \<Rightarrow> string" where
  "results_resultFileKey resultKey oscJobName =
     (let folder = substring resultKey 0 (lastIndexOf resultKey CHR ''/'' + 1)
      in folder @ tmpl oscJobName @ ''.json'')"

definition raw_resultFileKey :: "string \<Rightarrow> string option \<Rightarrow> string" where
  "raw_resultFileKey resultKey oscJobName =
     (let folder = substring resultKey 0 (lastIndexOf resultKey CHR ''/'' + 1)
      in folder @ tmpl oscJobName @ ''.json'')"

definition delete_resultFileKey :: "string \<Rightarrow> string option \<Rightarrow> string" where
  "delete_resultFileKey resultKey oscJobName =
     (let folder = substring resultKey 0 (lastIndexOf resultKey CHR ''/'' + 1)
      in folder @ tmpl oscJobName @ ''.json'')"

text \<open>
  The specification's wording: the prefix of \<open>resultKey\<close> up to and including its last
  slash (empty when there is no slash), followed by the external job name and
  \<^verbatim>\<open>.json\<close>.
\<close>

definition prefix_through_last_slash :: "string \<Rightarrow> string" where
  "prefix_through_last_slash s = rev (dropWhile (\<lambda>c. c \<noteq> CHR ''/'') (rev s))"

definition spec_rawResultKey :: "string \<Rightarrow> string \<Rightarrow> string" where
  "spec_rawResultKey resultKey externalJobName =
     prefix_through_last_slash resultKey @ externalJobName @ ''.json''"


section \<open>The result parser (GET /api/results/:jobId, parsing part)\<close>

text \<open>
  The raw report as the parser reads it: \<^verbatim>\<open>pooled_metrics\<close> maps a metric name to its
  aggregate statistics, \<^verbatim>\<open>frames\<close> is a sequence of frames, each with a frame number
  and a map from metric name to value. JSON numbers are rationals here; the parser only
  copies them. An object is an association list in key order, which is the order
  \<^verbatim>\<open>Object.keys\<close> reports for names that are not array indices.
\<close>

record PooledMetric =
  pm_min :: "rat option"
  pm_max :: "rat option"
  pm_mean :: "rat option"
  pm_harmonic_mean :: "rat option"

record Frame =
  f_frameNum :: nat
  f_metrics :: "(string \<times> rat) list option"

record VmafData =
  pooled_metrics :: "(string \<times> PooledMetric) list option"
  frames :: "Frame list option"











section \<open>Jobs, the Job Registry and the Storage Gateway\<close>

datatype Status = queued | running | completed | failed

text \<open>
  \<^verbatim>\<open>interface JobMetadata\<close>, the document stored at \<^verbatim>\<open>jobs/{jobId}.json\<close>. A field
  that a stored document may lack is an option: the loader itself provides for documents
  without \<^verbatim>\<open>bucket\<close>, and the three fields written with a non-null assertion
  (\<^verbatim>\<open>referenceName!\<close>, \<^verbatim>\<open>distortedName!\<close>, \<^verbatim>\<open>createdAt!\<close>) come from optional
  fields of the registry entry.
\<close>

record JobMetadata =
  m_jobId :: string
  m_status :: Status
  m_referenceKey :: string
  m_distortedKey :: string
  m_referenceName :: "string option"
  m_distortedName :: "string option"
  m_resultKey :: string
  m_bucket :: "string option"
  m_oscJobName :: "string option"
  m_error :: "string option"
  m_createdAt :: "string option"
  m_completedAt :: "string option"
  m_vmafScore :: "rat option"
  m_description :: "string option"

text \<open>The value type of the in-memory map \<^verbatim>\<open>jobs\<close>.\<close>

record Job =
  j_status :: Status
  j_referenceKey :: string
  j_distortedKey :: string
  j_resultKey :: string
  j_bucket :: "string option"
  j_config :: S3Config
  j_oscJobName :: "string option"
  j_error :: "string option"
  j_referenceName :: "string option"
  j_distortedName :: "string option"
  j_createdAt :: "string option"
  j_completedAt :: "string option"
  j_description :: "string option"

text \<open>
  What an object of the store is to the server: a job metadata document, a raw VMAF
  report, or bytes that \<^verbatim>\<open>JSON.parse\<close> rejects. The typed result of the loader
  (\<^verbatim>\<open>JobMetadata | null\<close>) has no value for a raw report read as metadata; the model
  treats it as unreadable, and no job created by the server stores one under
  \<^verbatim>\<open>jobs/\<close>.
\<close>

datatype S3Body = MetaDoc JobMetadata | VmafDoc VmafData | Garbage string

type_synonym S3 = "string \<times> string \<Rightarrow> S3Body option"

text \<open>
  The calls that change something outside the handler, in the order they are issued:
  writes to the registry, writes and deletes on the store, and calls to the job runner.
  Reads of the store are not recorded.
\<close>

datatype Event =
    JobsSet string Status
  | JobsDelete string
  | PutObject "string option" string
  | DeleteObject "string option" string
  | GetServiceAccessToken
  | CreateJob string
  | GetJob string

record World =
  jobs :: "string \<Rightarrow> Job option"
  s3 :: S3
  trace :: "Event list"

definition emit :: "Event \<Rightarrow> World \<Rightarrow> World" where
  "emit e w = w\<lparr>trace := trace w @ [e]\<rparr>"

text \<open>\<^verbatim>\<open>jobs.set(jobId, job)\<close>\<close>

definition jobs_set :: "string \<Rightarrow> Job \<Rightarrow> World \<Rightarrow> World" where
  "jobs_set jobId job w =
     emit (JobsSet jobId (j_status job)) (w\<lparr>jobs := (jobs w)(jobId \<mapsto> job)\<rparr>)"

text \<open>\<^verbatim>\<open>jobs.delete(jobId)\<close>\<close>

definition jobs_delete :: "string \<Rightarrow> World \<Rightarrow> World" where
  "jobs_delete jobId w = emit (JobsDelete jobId) (w\<lparr>jobs := (jobs w)(jobId := None)\<rparr>)"

text \<open>The status values written to the registry for one job, oldest first.\<close>

fun statuses_of :: "string \<Rightarrow> Event list \<Rightarrow> Status list" where
  "statuses_of jobId [] = []"
| "statuses_of jobId (JobsSet k st # es) =
     (if k = jobId then st # statuses_of jobId es else statuses_of jobId es)"
| "statuses_of jobId (_ # es) = statuses_of jobId es"

text \<open>
  GetObject. A bucket name that is \<^verbatim>\<open>undefined\<close> is rejected by the client, a missing
  key raises NoSuchKey; both are \<open>None\<close>, as is any other failure of the call.
\<close>

definition s3_get :: "S3 \<Rightarrow> string option \<Rightarrow> string \<Rightarrow> S3Body option" where
  "s3_get store targetBucket key =
     (case targetBucket of None \<Rightarrow> None | Some b \<Rightarrow> store (b, key))"

text \<open>
  PutObject and DeleteObject. \<open>fault\<close> is the message of the error the call raises, if
  the Storage Gateway fails it; the result carries the raised message.
\<close>

definition s3_put ::
  "string option \<Rightarrow> string \<Rightarrow> S3Body \<Rightarrow> string option \<Rightarrow> World \<Rightarrow> string option \<times> World" where
  "s3_put targetBucket key body fault w =
     (let w' = emit (PutObject targetBucket key) w
      in case targetBucket of
           None \<Rightarrow> (Some ''No value provided for input HTTP label: Bucket.'', w')
         | Some b \<Rightarrow>
             (case fault of
                Some msg \<Rightarrow> (Some msg, w')
              | None \<Rightarrow> (None, w'\<lparr>s3 := (s3 w')((b, key) \<mapsto> body)\<rparr>)))"

definition s3_delete ::
  "string option \<Rightarrow> string \<Rightarrow> string option \<Rightarrow> World \<Rightarrow> string option \<times> World" where
  "s3_delete targetBucket key fault w =
     (let w' = emit (DeleteObject targetBucket key) w
      in case targetBucket of
           None \<Rightarrow> (Some ''No value provided for input HTTP label: Bucket.'', w')
         | Some b \<Rightarrow>
             (case fault of
                Some msg \<Rightarrow> (Some msg, w')
              | None \<Rightarrow> (None, w'\<lparr>s3 := (s3 w')((b, key) := None)\<rparr>)))"

text \<open>\<^verbatim>\<open>saveJobMetadata(s3Client, bucket, metadata)\<close>\<close>

definition saveJobMetadata ::
  "string option \<Rightarrow> JobMetadata \<Rightarrow> string option \<Rightarrow> World \<Rightarrow> string option \<times> World" where
  "saveJobMetadata targetBucket metadata fault w =
     (let key = ''jobs/'' @ m_jobId metadata @ ''.json''
      in s3_put targetBucket key (MetaDoc metadata) fault w)"

text \<open>
  \<^verbatim>\<open>loadJobMetadata(s3Client, bucket, jobId)\<close>: every failure is \<^verbatim>\<open>null\<close>; a document
  without a (truthy) \<^verbatim>\<open>bucket\<close> gets the bucket it was loaded from.
\<close>

definition loadJobMetadata :: "S3 \<Rightarrow> string option \<Rightarrow> string \<Rightarrow> JobMetadata option" where
  "loadJobMetadata store searchBucket jobId =
     (let key = ''jobs/'' @ jobId @ ''.json''
      in case s3_get store searchBucket key of
           Some (MetaDoc metadata) \<Rightarrow>
             Some (if \<not> truthy (m_bucket metadata) then metadata\<lparr>m_bucket := searchBucket\<rparr>
                   else metadata)
         | _ \<Rightarrow> None)"


section \<open>Listing job metadata (listJobMetadata)\<close>











text \<open>A small store for the examples: two job records and one corrupted document.\<close>

definition demo_meta :: "string \<Rightarrow> Status \<Rightarrow> string \<Rightarrow> string option \<Rightarrow> JobMetadata" where
  "demo_meta jobId st createdAt oscJobName =
     \<lparr>m_jobId = jobId, m_status = st, m_referenceKey = ''a.mp4'', m_distortedKey = ''b.mp4'',
      m_referenceName = Some ''a.mp4'', m_distortedName = Some ''b.mp4'',
      m_resultKey = ''results/'' @ jobId @ ''.json'', m_bucket = Some ''demo'',
      m_oscJobName = oscJobName, m_error = None, m_createdAt = Some createdAt,
      m_completedAt = None, m_vmafScore = None, m_description = None\<rparr>"

definition demo_store :: S3 where
  "demo_store =
     (\<lambda>k. None)
       ((''demo'', ''jobs/job1.json'') \<mapsto> MetaDoc (demo_meta ''job1'' completed ''2024-05-01'' (Some ''x1'')),
        (''demo'', ''jobs/job2.json'') \<mapsto> MetaDoc (demo_meta ''job2'' running ''2024-05-02'' (Some ''x2'')),
        (''demo'', ''jobs/job3.json'') \<mapsto> Garbage ''{'')"



section \<open>Responses\<close>

text \<open>
  The JSON bodies the handlers answer with, and the response as status code and body
  (\<^verbatim>\<open>res.json\<close> alone answers 200).
\<close>

datatype Payload =
    P_Error string
  | P_AuthError string string
  | P_Analyze string Status string string string
  | P_Status string Status "string option"
  | P_StatusOsc string Status string string
  | P_Deleted string

datatype Response = Response nat Payload

fun code :: "Response \<Rightarrow> nat" where
  "code (Response c p) = c"


section \<open>DELETE /api/jobs/:jobId\<close>

text \<open>\<^verbatim>\<open>a || b\<close> on two optional strings.\<close>

definition js_or :: "string option \<Rightarrow> string option \<Rightarrow> string option" where
  "js_or a b = (if truthy a then a else b)"

text \<open>
  The bucket searched for the metadata: that of the in-memory job, else the query
  parameter, else the configured bucket.
\<close>

definition delete_searchBucket :: "S3Config \<Rightarrow> string \<Rightarrow> string option \<Rightarrow> World \<Rightarrow> string option" where
  "delete_searchBucket config jobId queryBucket w =
     (case jobs w jobId of
        Some inMemoryJob \<Rightarrow>
          if truthy (j_bucket inMemoryJob) then j_bucket inMemoryJob
          else if truthy queryBucket then queryBucket
          else bucket config
      | None \<Rightarrow> if truthy queryBucket then queryBucket else bucket config)"

text \<open>The bucket of the two deletes: the bucket named by the metadata, when it loads.\<close>

definition delete_targetBucket :: "S3Config \<Rightarrow> string \<Rightarrow> string option \<Rightarrow> World \<Rightarrow> string option" where
  "delete_targetBucket config jobId queryBucket w =
     (let searchBucket = delete_searchBucket config jobId queryBucket w
      in case loadJobMetadata (s3 w) searchBucket jobId of
           Some metadata \<Rightarrow>
             if truthy (m_bucket metadata) then m_bucket metadata else searchBucket
         | None \<Rightarrow> searchBucket)"

text \<open>
  The handler. \<open>rawFault\<close> and \<open>metaFault\<close> are the errors that the two DeleteObject
  calls raise, if any; each is caught and logged where it is raised (\<open>snd\<close> drops it).
\<close>

definition delete_job ::
  "S3Config \<Rightarrow> string \<Rightarrow> string option \<Rightarrow> string option \<Rightarrow> string option \<Rightarrow> World
     \<Rightarrow> Response \<times> World" where
  "delete_job config jobId queryBucket rawFault metaFault w =
     (let searchBucket = delete_searchBucket config jobId queryBucket w;
          metadata = loadJobMetadata (s3 w) searchBucket jobId;
          targetBucket = delete_targetBucket config jobId queryBucket w;
          w1 = (case metadata of
                  Some md \<Rightarrow>
                    if truthy (m_oscJobName md) \<and> m_resultKey md \<noteq> [] then
                      snd (s3_delete targetBucket
                             (delete_resultFileKey (m_resultKey md) (m_oscJobName md))
                             rawFault w)
                    else w
                | None \<Rightarrow> w);
          metadataKey = ''jobs/'' @ jobId @ ''.json'';
          w2 = snd (s3_delete targetBucket metadataKey metaFault w1);
          w3 = jobs_delete jobId w2
      in (Response 200 (P_Deleted ''Job deleted successfully''), w3))"


section \<open>GET /api/jobs/:jobId/status\<close>

text \<open>
  \<open>tokenOutcome\<close> and \<open>getJobOutcome\<close> are the outcomes of the two calls to the job
  runner (\<open>Inl\<close> an error raised, \<open>Inr\<close> the token, respectively the runner's status
  of the job). The handler reads the registry and nothing else.
\<close>

definition get_job_status ::
  "string \<Rightarrow> string + string \<Rightarrow> string + string \<Rightarrow> World \<Rightarrow> Response \<times> World" where
  "get_job_status jobId tokenOutcome getJobOutcome w =
     (case jobs w jobId of
        None \<Rightarrow> (Response 404 (P_Error ''Job not found''), w)
      | Some job \<Rightarrow>
          if truthy (j_oscJobName job) then
            (let w1 = emit GetServiceAccessToken w
             in case tokenOutcome of
                  Inl err \<Rightarrow> (Response 500 (P_Error ''Failed to fetch job status''), w1)
                | Inr serviceAccessToken \<Rightarrow>
                    (let w2 = emit (GetJob (tmpl (j_oscJobName job))) w1
                     in case getJobOutcome of
                          Inl err \<Rightarrow> (Response 500 (P_Error ''Failed to fetch job status''), w2)
                        | Inr oscJobStatus \<Rightarrow>
                            (Response 200
                               (P_StatusOsc jobId (j_status job) (tmpl (j_oscJobName job))
                                  oscJobStatus), w2)))
          else (Response 200 (P_Status jobId (j_status job) (j_error job)), w))"


section \<open>POST /api/analyze\<close>

text \<open>\<^verbatim>\<open>`${n}`\<close> for a non-negative integer: its decimal digits.\<close>

definition digit_char :: "nat \<Rightarrow> char" where
  "digit_char d = ''0123456789'' ! (d mod 10)"

function show_nat :: "nat \<Rightarrow> string" where
  "show_nat n = (if n < 10 then [digit_char n] else show_nat (n div 10) @ [digit_char n])"
  by pat_completeness auto
termination
  by (relation "measure id") auto

record AnalyzeBody =
  a_referenceKey :: "string option"
  a_distortedKey :: "string option"
  a_folder :: "string option"
  a_bucket :: "string option"
  a_description :: "string option"

text \<open>
  What the handler takes from its environment: the clock (\<^verbatim>\<open>Date.now()\<close> and
  \<^verbatim>\<open>new Date().toISOString()\<close>), whether \<^verbatim>\<open>new URL\<close> rejects one of the three S3
  URLs, the outcome of \<^verbatim>\<open>getServiceAccessToken\<close> (\<open>Inl\<close> the error raised), the error
  raised by the save in the authentication-failure branch, if any, and the random part
  of the runner's job name.
\<close>

record AnalyzeEnv =
  e_now :: nat
  e_iso :: string
  e_urlError :: bool
  e_token :: "string + string"
  e_saveFault :: "string option"
  e_random :: string

text \<open>What the background task closes over.\<close>

record Background =
  bg_jobId :: string
  bg_targetBucket :: "string option"
  bg_config :: S3Config
  bg_oscJobName :: string
  bg_token :: string

text \<open>
  \<^verbatim>\<open>jobs.set(jobId, { ...jobs.get(jobId)!, changes })\<close>. The entry is present at every
  such statement as long as no other request deletes the job while the request or its
  task runs; the spread of an absent entry has no value of type \<open>Job\<close>, and that case
  is left out of the model (the world is returned as it is).
\<close>

definition jobs_modify :: "string \<Rightarrow> (Job \<Rightarrow> Job) \<Rightarrow> World \<Rightarrow> World" where
  "jobs_modify jobId change w =
     (case jobs w jobId of Some job \<Rightarrow> jobs_set jobId (change job) w | None \<Rightarrow> w)"

text \<open>\<^verbatim>\<open>key.split('/').pop() || key\<close>\<close>

definition file_name :: "string \<Rightarrow> string" where
  "file_name key = (if split_pop key \<noteq> [] then split_pop key else key)"

text \<open>\<^verbatim>\<open>`job${Date.now()}`\<close>\<close>

definition new_jobId :: "AnalyzeEnv \<Rightarrow> string" where
  "new_jobId env = ''job'' @ show_nat (e_now env)"

text \<open>
  \<^verbatim>\<open>folder ? `${folder}/results/${jobId}.json` : `results/${jobId}.json`\<close>
\<close>

definition new_resultKey :: "AnalyzeBody \<Rightarrow> string \<Rightarrow> string" where
  "new_resultKey body jobId =
     (if truthy (a_folder body) then tmpl (a_folder body) @ ''/results/'' @ jobId @ ''.json''
      else ''results/'' @ jobId @ ''.json'')"

text \<open>
  The handler up to its response. The result is the response, the world when the
  response is sent, and the background task if one was started: the task's call of
  \<^verbatim>\<open>createJob\<close> is issued before the response, its continuation runs after it.
\<close>

definition analyze ::
  "S3Config \<Rightarrow> AnalyzeBody \<Rightarrow> AnalyzeEnv \<Rightarrow> World \<Rightarrow> Response \<times> World \<times> Background option" where
  "analyze config body env w =
     (case (a_referenceKey body, a_distortedKey body) of
        (Some referenceKey, Some distortedKey) \<Rightarrow>
          (let targetBucket = js_or (a_bucket body) (bucket config);
               jobId = new_jobId env;
               createdAt = e_iso env;
               resultKey = new_resultKey body jobId;
               referenceName = file_name referenceKey;
               distortedName = file_name distortedKey;
               w1 = jobs_set jobId
                      \<lparr>j_status = queued, j_referenceKey = referenceKey,
                       j_distortedKey = distortedKey, j_resultKey = resultKey,
                       j_bucket = targetBucket, j_config = config, j_oscJobName = None,
                       j_error = None, j_referenceName = Some referenceName,
                       j_distortedName = Some distortedName, j_createdAt = Some createdAt,
                       j_completedAt = None, j_description = a_description body\<rparr> w
           in if e_urlError env then
                (Response 500 (P_Error ''Failed to trigger analysis''), w1, None)
              else
                (let w2 = jobs_modify jobId (\<lambda>job. job\<lparr>j_status := running\<rparr>) w1;
                     w3 = emit GetServiceAccessToken w2
                 in case e_token env of
                      Inl err \<Rightarrow>
                        (let w4 = jobs_modify jobId
                                    (\<lambda>job. job\<lparr>j_status := failed,
                                       j_error := Some ''Invalid OSC token or service unavailable''\<rparr>)
                                    w3;
                             w5 = snd (saveJobMetadata targetBucket
                                    \<lparr>m_jobId = jobId, m_status = failed,
                                     m_referenceKey = referenceKey,
                                     m_distortedKey = distortedKey,
                                     m_referenceName = Some referenceName,
                                     m_distortedName = Some distortedName,
                                     m_resultKey = resultKey, m_bucket = targetBucket,
                                     m_oscJobName = None,
                                     m_error = Some ''Invalid OSC token or service unavailable'',
                                     m_createdAt = Some createdAt, m_completedAt = None,
                                     m_vmafScore = None,
                                     m_description = a_description body\<rparr>
                                    (e_saveFault env) w4)
                         in (Response 400
                               (P_AuthError
                                  ''Failed to authenticate with OSC. Please check your OSC token in settings.''
                                  jobId),
                             w5, None))
                    | Inr serviceAccessToken \<Rightarrow>
                        (let oscJobName = e_random env;
                             w4 = emit (CreateJob oscJobName) w3
                         in (Response 200
                               (P_Analyze jobId queued referenceKey distortedKey resultKey),
                             w4,
                             Some \<lparr>bg_jobId = jobId, bg_targetBucket = targetBucket,
                                   bg_config = config, bg_oscJobName = oscJobName,
                                   bg_token = serviceAccessToken\<rparr>))))
      | _ \<Rightarrow> (Response 500 (P_Error ''Failed to trigger analysis''), w, None))"


section \<open>The background task of POST /api/analyze\<close>

text \<open>
  One round of the poll loop as the environment decides it: the outcome of \<^verbatim>\<open>getJob\<close>
  (\<open>Inl\<close> an error raised, \<open>Inr\<close> the runner's status), the clock at completion, and
  the error raised by the save of the completed record, if any.
\<close>

record Poll =
  p_getJob :: "string + string"
  p_completedAt :: string
  p_saveFault :: "string option"

text \<open>
  How the \<^verbatim>\<open>try\<close> block ends: the loop ended after completion, the loop is still
  polling (the rounds given are used up), an exception reached the \<^verbatim>\<open>catch\<close> block,
  or the registry entry was gone (outside the model, see \<open>jobs_modify\<close>).
\<close>

datatype Exit = Finished | Polling | Thrown string | Vanished

text \<open>
  The score extraction of the poll loop: \<^verbatim>\<open>(pooledMetrics.vmaf_hd || pooledMetrics.vmaf)?.mean\<close>
  of the raw report; any failure leaves the score undefined.
\<close>

definition extract_score :: "S3 \<Rightarrow> string option \<Rightarrow> string \<Rightarrow> rat option" where
  "extract_score store targetBucket resultFileKey =
     (case s3_get store targetBucket resultFileKey of
        Some (VmafDoc vmafData) \<Rightarrow>
          (let pooledMetrics = (case pooled_metrics vmafData of None \<Rightarrow> [] | Some m \<Rightarrow> m);
               vmafHd = (case map_of pooledMetrics ''vmaf_hd'' of
                           Some stats \<Rightarrow> Some stats
                         | None \<Rightarrow> map_of pooledMetrics ''vmaf'')
           in case vmafHd of None \<Rightarrow> None | Some stats \<Rightarrow> pm_mean stats)
      | _ \<Rightarrow> None)"

text \<open>The \<^verbatim>\<open>while (!completed)\<close> loop, one equation per round.\<close>

fun poll_loop :: "Background \<Rightarrow> string \<Rightarrow> Poll list \<Rightarrow> World \<Rightarrow> Exit \<times> World" where
  "poll_loop bg jobName [] w = (Polling, w)"
| "poll_loop bg jobName (p # ps) w =
     (let w1 = emit (GetJob jobName) w
      in case p_getJob p of
           Inl err \<Rightarrow> (Thrown err, w1)
         | Inr oscStatus \<Rightarrow>
             (let w2 = (if oscStatus = ''Running'' then
                          (case jobs w1 (bg_jobId bg) of
                             Some runningJob \<Rightarrow>
                               if j_status runningJob = queued
                               then jobs_set (bg_jobId bg) (runningJob\<lparr>j_status := running\<rparr>) w1
                               else w1
                           | None \<Rightarrow> w1)
                        else w1)
              in if oscStatus = ''SuccessCriteriaMet'' \<or> oscStatus = ''Completed''
                    \<or> oscStatus = ''Success'' then
                   (case jobs w2 (bg_jobId bg) of
                      None \<Rightarrow> (Vanished, w2)
                    | Some completedJob \<Rightarrow>
                        (let completedAt = p_completedAt p;
                             w3 = jobs_set (bg_jobId bg)
                                    (completedJob\<lparr>j_status := completed,
                                       j_completedAt := Some completedAt\<rparr>) w2;
                             resultFileKey = poll_resultFileKey (j_resultKey completedJob)
                                               (j_oscJobName completedJob);
                             vmafScore = extract_score (s3 w3) (bg_targetBucket bg) resultFileKey;
                             saved = saveJobMetadata (bg_targetBucket bg)
                                       \<lparr>m_jobId = bg_jobId bg, m_status = completed,
                                        m_referenceKey = j_referenceKey completedJob,
                                        m_distortedKey = j_distortedKey completedJob,
                                        m_referenceName = j_referenceName completedJob,
                                        m_distortedName = j_distortedName completedJob,
                                        m_resultKey = j_resultKey completedJob,
                                        m_bucket = bg_targetBucket bg,
                                        m_oscJobName = j_oscJobName completedJob,
                                        m_error = None,
                                        m_createdAt = j_createdAt completedJob,
                                        m_completedAt = Some completedAt,
                                        m_vmafScore = vmafScore,
                                        m_description = j_description completedJob\<rparr>
                                       (p_saveFault p) w3
                         in case fst saved of
                              Some err \<Rightarrow> (Thrown err, snd saved)
                            | None \<Rightarrow> (Finished, snd saved)))
                 else if oscStatus = ''Failed'' \<or> oscStatus = ''Error'' then
                   (Thrown (''Job failed with status: '' @ oscStatus), w2)
                 else poll_loop bg jobName ps w2))"

text \<open>
  The environment of the task: the outcome of \<^verbatim>\<open>createJob\<close> (\<open>Inl\<close> the error raised,
  \<open>Inr\<close> the name the runner gives the job), the error raised by the save that follows
  the submission, the rounds of the poll loop, and the error raised by the save of the
  \<^verbatim>\<open>catch\<close> block.
\<close>

record BackgroundEnv =
  be_createJob :: "string + string"
  be_saveFault :: "string option"
  be_polls :: "Poll list"
  be_catchSaveFault :: "string option"

text \<open>The \<^verbatim>\<open>try\<close> block after \<^verbatim>\<open>createJob\<close> has answered.\<close>

definition background_try :: "Background \<Rightarrow> BackgroundEnv \<Rightarrow> World \<Rightarrow> Exit \<times> World" where
  "background_try bg env w =
     (case be_createJob env of
        Inl err \<Rightarrow> (Thrown err, w)
      | Inr jobName \<Rightarrow>
          (case jobs w (bg_jobId bg) of
             None \<Rightarrow> (Vanished, w)
           | Some currentJob \<Rightarrow>
               (let w1 = jobs_set (bg_jobId bg) (currentJob\<lparr>j_oscJobName := Some jobName\<rparr>) w;
                    saved = saveJobMetadata (bg_targetBucket bg)
                              \<lparr>m_jobId = bg_jobId bg, m_status = j_status currentJob,
                               m_referenceKey = j_referenceKey currentJob,
                               m_distortedKey = j_distortedKey currentJob,
                               m_referenceName = j_referenceName currentJob,
                               m_distortedName = j_distortedName currentJob,
                               m_resultKey = j_resultKey currentJob,
                               m_bucket = bg_targetBucket bg,
                               m_oscJobName = Some jobName, m_error = None,
                               m_createdAt = j_createdAt currentJob, m_completedAt = None,
                               m_vmafScore = None,
                               m_description = j_description currentJob\<rparr>
                              (be_saveFault env) w1
                in case fst saved of
                     Some err \<Rightarrow> (Thrown err, snd saved)
                   | None \<Rightarrow> poll_loop bg jobName (be_polls env) (snd saved))))"

text \<open>
  The \<^verbatim>\<open>catch\<close> block: the job is set to failed with the message of the exception,
  and the failed record is saved; an error of that save is caught and logged. (An absent
  registry entry is outside the model here too, see \<open>jobs_modify\<close>.)
\<close>

definition background_catch :: "Background \<Rightarrow> string \<Rightarrow> string option \<Rightarrow> World \<Rightarrow> World" where
  "background_catch bg message fault w =
     (case jobs w (bg_jobId bg) of
        None \<Rightarrow> w
      | Some failedJob \<Rightarrow>
          (let w1 = jobs_set (bg_jobId bg)
                      (failedJob\<lparr>j_status := failed, j_error := Some message\<rparr>) w
           in snd (saveJobMetadata (bg_targetBucket bg)
                     \<lparr>m_jobId = bg_jobId bg, m_status = failed,
                      m_referenceKey = j_referenceKey failedJob,
                      m_distortedKey = j_distortedKey failedJob,
                      m_referenceName = j_referenceName failedJob,
                      m_distortedName = j_distortedName failedJob,
                      m_resultKey = j_resultKey failedJob,
                      m_bucket = bg_targetBucket bg,
                      m_oscJobName = j_oscJobName failedJob, m_error = Some message,
                      m_createdAt = j_createdAt failedJob, m_completedAt = None,
                      m_vmafScore = None, m_description = j_description failedJob\<rparr>
                     fault w1)))"

definition background :: "Background \<Rightarrow> BackgroundEnv \<Rightarrow> World \<Rightarrow> Exit \<times> World" where
  "background bg env w =
     (case background_try bg env w of
        (Thrown message, w') \<Rightarrow>
          (Thrown message, background_catch bg message (be_catchSaveFault env) w')
      | (ending, w') \<Rightarrow> (ending, w'))"

text \<open>
  A create request followed by its background task: the world when the task's
  \<^verbatim>\<open>try\<close>/\<^verbatim>\<open>catch\<close> has run as far as the environment lets it.
\<close>

definition analyze_then_background ::
  "S3Config \<Rightarrow> AnalyzeBody \<Rightarrow> AnalyzeEnv \<Rightarrow> BackgroundEnv \<Rightarrow> World \<Rightarrow> World" where
  "analyze_then_background config body env benv w =
     (case analyze config body env w of
        (response, w', Some bg) \<Rightarrow> snd (background bg benv w')
      | (response, w', None) \<Rightarrow> w')"

text \<open>The state and the requests of the examples.\<close>

definition demo_config :: S3Config where
  "demo_config =
     \<lparr>storageType = S3Compatible, endpoint = Some ''https://minio.example'',
      accessKey = ''key'', secretKey = ''secret'', bucket = None, region = None,
      oscToken = ''pat''\<rparr>"

definition demo_body :: AnalyzeBody where
  "demo_body =
     \<lparr>a_referenceKey = Some ''a.mp4'', a_distortedKey = Some ''b.mp4'', a_folder = None,
      a_bucket = Some ''demo'', a_description = None\<rparr>"

definition demo_env :: "string + string \<Rightarrow> AnalyzeEnv" where
  "demo_env token =
     \<lparr>e_now = 42, e_iso = ''2024-05-03'', e_urlError = False, e_token = token,
      e_saveFault = None, e_random = ''k3x9q''\<rparr>"

definition empty_world :: World where
  "empty_world = \<lparr>jobs = (\<lambda>k. None), s3 = (\<lambda>k. None), trace = []\<rparr>"

definition restarted_world :: World where
  "restarted_world = \<lparr>jobs = (\<lambda>k. None), s3 = demo_store, trace = []\<rparr>"


text \<open>The status of the metadata record stored for a job, if a record is stored.\<close>

definition stored_status :: "World \<Rightarrow> string \<Rightarrow> string \<Rightarrow> Status option" where
  "stored_status w b jobId =
     (case s3 w (b, ''jobs/'' @ jobId @ ''.json'') of
        Some (MetaDoc m) \<Rightarrow> Some (m_status m)
      | _ \<Rightarrow> None)"

text \<open>The status and the error message of a job's registry entry.\<close>

definition registry_status :: "World \<Rightarrow> string \<Rightarrow> Status option" where
  "registry_status w jobId = map_option j_status (jobs w jobId)"

definition registry_error :: "World \<Rightarrow> string \<Rightarrow> string option" where
  "registry_error w jobId = (case jobs w jobId of None \<Rightarrow> None | Some job \<Rightarrow> j_error job)"

text \<open>
  The delete of the raw result object that DELETE /api/jobs/:jobId attempts: none unless
  the metadata loads and has an external job name and a result key.
\<close>

definition raw_delete_attempt ::
  "S3Config \<Rightarrow> string \<Rightarrow> string option \<Rightarrow> World \<Rightarrow> Event list" where
  "raw_delete_attempt config jobId queryBucket w =
     (case loadJobMetadata (s3 w) (delete_searchBucket config jobId queryBucket w) jobId of
        Some md \<Rightarrow>
          if truthy (m_oscJobName md) \<and> m_resultKey md \<noteq> [] then
            [DeleteObject (delete_targetBucket config jobId queryBucket w)
               (delete_resultFileKey (m_resultKey md) (m_oscJobName md))]
          else []
      | None \<Rightarrow> [])"

text \<open>
  A run of the background task in which the runner reports \<^verbatim>\<open>Running\<close> and then
  \<^verbatim>\<open>Completed\<close>, and the Storage Gateway fails the save of the completed record.
\<close>

definition completed_save_fails :: BackgroundEnv where
  "completed_save_fails =
     \<lparr>be_createJob = Inr ''k3x9q'', be_saveFault = None,
      be_polls = [\<lparr>p_getJob = Inr ''Running'', p_completedAt = [], p_saveFault = None\<rparr>,
                  \<lparr>p_getJob = Inr ''Completed'', p_completedAt = ''2024-05-04'',
                   p_saveFault = Some ''S3 unavailable''\<rparr>],
      be_catchSaveFault = None\<rparr>"


section \<open>Lemmas on the string primitives\<close>

lemma lastIndexOf_scan_append:
  "lastIndexOf_scan c (xs @ ys) i hit =
     lastIndexOf_scan c ys (i + int (length xs)) (lastIndexOf_scan c xs i hit)"
  by (induction xs arbitrary: i hit) (simp_all add: add.assoc)

lemma lastIndexOf_snoc:
  "lastIndexOf (xs @ [x]) c = (if x = c then int (length xs) else lastIndexOf xs c)"
  by (simp add: lastIndexOf_def lastIndexOf_scan_append)

lemma lastIndexOf_bounds: "- 1 \<le> lastIndexOf s c \<and> lastIndexOf s c < int (length s)"
proof (induction s rule: rev_induct)
  case Nil
  show ?case by (simp add: lastIndexOf_def)
next
  case (snoc x xs)
  then show ?case by (auto simp: lastIndexOf_snoc)
qed

lemma substring_from_zero:
  "0 \<le> b \<Longrightarrow> b \<le> int (length s) \<Longrightarrow> substring s 0 b = take (nat b) s"
  by (simp add: substring_def Let_def min_def max_def)

lemma take_through_last_slash:
  "take (nat (lastIndexOf s c + 1)) s = rev (dropWhile (\<lambda>x. x \<noteq> c) (rev s))"
proof (induction s rule: rev_induct)
  case Nil
  show ?case by (simp add: lastIndexOf_def)
next
  case (snoc x xs)
  show ?case
  proof (cases "x = c")
    case True
    then show ?thesis by (simp add: lastIndexOf_snoc nat_add_distrib)
  next
    case False
    have "nat (lastIndexOf xs c + 1) \<le> length xs"
      using lastIndexOf_bounds [of xs c] by linarith
    with False snoc show ?thesis by (simp add: lastIndexOf_snoc)
  qed
qed

lemma folder_is_prefix_through_last_slash:
  "substring s 0 (lastIndexOf s CHR ''/'' + 1) = prefix_through_last_slash s"
proof -
  have "0 \<le> lastIndexOf s CHR ''/'' + 1" and "lastIndexOf s CHR ''/'' + 1 \<le> int (length s)"
    using lastIndexOf_bounds [of s "CHR ''/''"] by linarith+
  then show ?thesis
    by (simp add: substring_from_zero take_through_last_slash prefix_through_last_slash_def)
qed


section \<open>Lemmas on the configuration handlers\<close>

lemma post_storageType_secrets:
  "accessKey (post_storageType v c) = accessKey c"
  "secretKey (post_storageType v c) = secretKey c"
  "oscToken (post_storageType v c) = oscToken c"
  by (simp_all add: post_storageType_def split: option.splits StorageType.splits)

lemma post_endpoint_secrets:
  "accessKey (post_endpoint v c) = accessKey c"
  "secretKey (post_endpoint v c) = secretKey c"
  "oscToken (post_endpoint v c) = oscToken c"
  by (simp_all add: post_endpoint_def split: option.splits)

lemma post_region_secrets:
  "accessKey (post_region v c) = accessKey c"
  "secretKey (post_region v c) = secretKey c"
  "oscToken (post_region v c) = oscToken c"
  by (simp_all add: post_region_def split: option.splits)

lemma post_bucket_secrets:
  "accessKey (post_bucket v c) = accessKey c"
  "secretKey (post_bucket v c) = secretKey c"
  "oscToken (post_bucket v c) = oscToken c"
  by (simp_all add: post_bucket_def split: option.splits)

lemma post_accessKey_secrets:
  "accessKey (post_accessKey v c) =
     (case v of None \<Rightarrow> accessKey c | Some k \<Rightarrow> if k \<noteq> ''****'' then k else accessKey c)"
  "secretKey (post_accessKey v c) = secretKey c"
  "oscToken (post_accessKey v c) = oscToken c"
  by (simp_all add: post_accessKey_def split: option.splits)

lemma post_secretKey_secrets:
  "accessKey (post_secretKey v c) = accessKey c"
  "secretKey (post_secretKey v c) =
     (case v of None \<Rightarrow> secretKey c | Some k \<Rightarrow> if k \<noteq> ''****'' then k else secretKey c)"
  "oscToken (post_secretKey v c) = oscToken c"
  by (simp_all add: post_secretKey_def split: option.splits)

lemma post_oscToken_secrets:
  "accessKey (post_oscToken v c) = accessKey c"
  "secretKey (post_oscToken v c) = secretKey c"
  "oscToken (post_oscToken v c) =
     (case v of None \<Rightarrow> oscToken c | Some k \<Rightarrow> if k \<noteq> ''****'' then k else oscToken c)"
  by (simp_all add: post_oscToken_def split: option.splits)

lemma post_config_secrets:
  "accessKey (post_config c body) =
     (case b_accessKey body of
        None \<Rightarrow> accessKey c
      | Some k \<Rightarrow> if k \<noteq> ''****'' then k else accessKey c)"
  "secretKey (post_config c body) =
     (case b_secretKey body of
        None \<Rightarrow> secretKey c
      | Some k \<Rightarrow> if k \<noteq> ''****'' then k else secretKey c)"
  "oscToken (post_config c body) =
     (case b_oscToken body of
        None \<Rightarrow> oscToken c
      | Some k \<Rightarrow> if k \<noteq> ''****'' then k else oscToken c)"
  by (simp_all add: post_config_def post_storageType_secrets post_endpoint_secrets
      post_region_secrets post_bucket_secrets post_accessKey_secrets post_secretKey_secrets
      post_oscToken_secrets split: option.splits)


section \<open>Lemmas on listing\<close>












section \<open>Lemmas on the registry, the store and the handlers\<close>

lemma statuses_of_append:
  "statuses_of jobId (xs @ ys) = statuses_of jobId xs @ statuses_of jobId ys"
  by (induction jobId xs rule: statuses_of.induct) simp_all

lemma jobs_set_facts:
  "jobs (jobs_set jobId job w) = (jobs w)(jobId \<mapsto> job)"
  "s3 (jobs_set jobId job w) = s3 w"
  "trace (jobs_set jobId job w) = trace w @ [JobsSet jobId (j_status job)]"
  by (simp_all add: jobs_set_def emit_def)

lemma emit_facts:
  "jobs (emit e w) = jobs w" "s3 (emit e w) = s3 w" "trace (emit e w) = trace w @ [e]"
  by (simp_all add: emit_def)

lemma jobs_modify_present:
  "jobs w jobId = Some job \<Longrightarrow> jobs_modify jobId change w = jobs_set jobId (change job) w"
  by (simp add: jobs_modify_def)



lemma s3_delete_facts:
  "jobs (snd (s3_delete tb key fault w)) = jobs w"
  "trace (snd (s3_delete tb key fault w)) = trace w @ [DeleteObject tb key]"
  by (simp_all add: s3_delete_def emit_def Let_def split: option.splits)

lemma s3_delete_s3:
  "s3 (snd (s3_delete tb key fault w)) =
     (case tb of
        None \<Rightarrow> s3 w
      | Some b \<Rightarrow> (case fault of Some msg \<Rightarrow> s3 w | None \<Rightarrow> (s3 w)((b, key) := None)))"
  by (simp add: s3_delete_def emit_def Let_def split: option.splits)

lemma jobs_delete_facts:
  "jobs (jobs_delete jobId w) = (jobs w)(jobId := None)"
  "s3 (jobs_delete jobId w) = s3 w"
  "trace (jobs_delete jobId w) = trace w @ [JobsDelete jobId]"
  by (simp_all add: jobs_delete_def emit_def)

lemma delete_job_response:
  "fst (delete_job config jobId qb rawFault metaFault w) =
     Response 200 (P_Deleted ''Job deleted successfully'')"
  by (simp add: delete_job_def Let_def)

lemma delete_job_jobs:
  "jobs (snd (delete_job config jobId qb rawFault metaFault w)) = (jobs w)(jobId := None)"
  by (simp add: delete_job_def Let_def jobs_delete_facts s3_delete_facts split: option.splits)

lemma delete_job_trace:
  "trace (snd (delete_job config jobId qb rawFault metaFault w)) =
     trace w @ raw_delete_attempt config jobId qb w @
       [DeleteObject (delete_targetBucket config jobId qb w) (''jobs/'' @ jobId @ ''.json''),
        JobsDelete jobId]"
  by (simp add: delete_job_def Let_def jobs_delete_facts s3_delete_facts raw_delete_attempt_def
      split: option.splits)

lemma delete_job_metadata_gone:
  "metaFault = None \<Longrightarrow>
   loadJobMetadata (s3 (snd (delete_job config jobId qb rawFault metaFault w)))
     (delete_targetBucket config jobId qb w) jobId = None"
  by (simp add: delete_job_def Let_def jobs_delete_facts s3_delete_s3 loadJobMetadata_def
      s3_get_def split: option.splits)


section \<open>Verified claims\<close>

text \<open>
  C6. The raw result document's key is a function of \<open>resultKey\<close> and the external job
  name alone: the prefix of \<open>resultKey\<close> through its last slash, then the job name, then
  \<^verbatim>\<open>.json\<close>. The poll loop's score extraction, the parsed-results endpoint and the
  raw-download endpoint all compute this key.
\<close>

theorem C6_raw_result_key_same_on_all_paths:
  "poll_resultFileKey resultKey (Some name) = spec_rawResultKey resultKey name \<and>
   results_resultFileKey resultKey (Some name) = spec_rawResultKey resultKey name \<and>
   raw_resultFileKey resultKey (Some name) = spec_rawResultKey resultKey name \<and>
   poll_resultFileKey resultKey oscJobName = results_resultFileKey resultKey oscJobName \<and>
   results_resultFileKey resultKey oscJobName = raw_resultFileKey resultKey oscJobName"
  by (simp add: poll_resultFileKey_def results_resultFileKey_def raw_resultFileKey_def
      spec_rawResultKey_def folder_is_prefix_through_last_slash tmpl_def)

text \<open>
  C10. GET /api/config shows the three secrets only as the mask \<^verbatim>\<open>****\<close> (or as the
  empty string when unset), so two configurations that differ only in the values of
  non-empty secrets give the same response; POST /api/config keeps a stored secret when
  the posted field is the mask, so posting back a fetched configuration leaves all three
  secrets as they were.
\<close>

theorem C10_config_secrets_masked_and_kept:
  "(same_public c d \<longrightarrow> get_config c = get_config d) \<and>
   v_accessKey (get_config c) = (if accessKey c = [] then [] else ''****'') \<and>
   v_secretKey (get_config c) = (if secretKey c = [] then [] else ''****'') \<and>
   v_oscToken (get_config c) = (if oscToken c = [] then [] else ''****'') \<and>
   (b_accessKey body = Some ''****'' \<longrightarrow> accessKey (post_config c body) = accessKey c) \<and>
   (b_secretKey body = Some ''****'' \<longrightarrow> secretKey (post_config c body) = secretKey c) \<and>
   (b_oscToken body = Some ''****'' \<longrightarrow> oscToken (post_config c body) = oscToken c) \<and>
   accessKey (post_config c (body_of_view (get_config c))) = accessKey c \<and>
   secretKey (post_config c (body_of_view (get_config c))) = secretKey c \<and>
   oscToken (post_config c (body_of_view (get_config c))) = oscToken c"
proof -
  have view: "same_public c d \<longrightarrow> get_config c = get_config d"
    by (simp add: same_public_def get_config_def mask_def)
  have shown: "v_accessKey (get_config c) = (if accessKey c = [] then [] else ''****'')"
    "v_secretKey (get_config c) = (if secretKey c = [] then [] else ''****'')"
    "v_oscToken (get_config c) = (if oscToken c = [] then [] else ''****'')"
    by (simp_all add: get_config_def mask_def)
  have kept: "b_accessKey body = Some ''****'' \<longrightarrow> accessKey (post_config c body) = accessKey c"
    "b_secretKey body = Some ''****'' \<longrightarrow> secretKey (post_config c body) = secretKey c"
    "b_oscToken body = Some ''****'' \<longrightarrow> oscToken (post_config c body) = oscToken c"
    by (simp_all add: post_config_secrets)
  have posted: "accessKey (post_config c (body_of_view (get_config c))) = accessKey c"
    "secretKey (post_config c (body_of_view (get_config c))) = secretKey c"
    "oscToken (post_config c (body_of_view (get_config c))) = oscToken c"
    by (simp_all add: post_config_secrets body_of_view_def get_config_def mask_def)
  from view shown kept posted show ?thesis by blast
qed

theorem C10_config_secrets_masked_and_kept_witness:
  "same_public
     \<lparr>storageType = Aws, endpoint = None, accessKey = ''AKIA1'', secretKey = ''s3cr3t'',
      bucket = Some ''demo'', region = Some ''eu-north-1'', oscToken = ''tok''\<rparr>
     \<lparr>storageType = Aws, endpoint = None, accessKey = ''other'', secretKey = ''x'',
      bucket = Some ''demo'', region = Some ''eu-north-1'', oscToken = ''y''\<rparr> \<and>
   get_config
     \<lparr>storageType = Aws, endpoint = None, accessKey = ''AKIA1'', secretKey = ''s3cr3t'',
      bucket = Some ''demo'', region = Some ''eu-north-1'', oscToken = ''tok''\<rparr> =
   get_config
     \<lparr>storageType = Aws, endpoint = None, accessKey = ''other'', secretKey = ''x'',
      bucket = Some ''demo'', region = Some ''eu-north-1'', oscToken = ''y''\<rparr> \<and>
   accessKey (post_config
     \<lparr>storageType = Aws, endpoint = None, accessKey = ''AKIA1'', secretKey = ''s3cr3t'',
      bucket = Some ''demo'', region = Some ''eu-north-1'', oscToken = ''tok''\<rparr>
     \<lparr>b_storageType = None, b_endpoint = None, b_region = None, b_bucket = None,
      b_accessKey = Some ''****'', b_secretKey = Some ''****'', b_oscToken = Some ''****''\<rparr>)
     = ''AKIA1''"
  using C10_config_secrets_masked_and_kept
    [of "\<lparr>storageType = Aws, endpoint = None, accessKey = ''AKIA1'', secretKey = ''s3cr3t'',
          bucket = Some ''demo'', region = Some ''eu-north-1'', oscToken = ''tok''\<rparr>"
        "\<lparr>storageType = Aws, endpoint = None, accessKey = ''other'', secretKey = ''x'',
          bucket = Some ''demo'', region = Some ''eu-north-1'', oscToken = ''y''\<rparr>"
        "\<lparr>b_storageType = None, b_endpoint = None, b_region = None, b_bucket = None,
          b_accessKey = Some ''****'', b_secretKey = Some ''****'', b_oscToken = Some ''****''\<rparr>"]
  by (simp add: same_public_def)





text \<open>
  C9. Deleting a job is best-effort and always answers success: the raw result object
  is deleted only when the metadata loads and has an external job name and a result
  key, the metadata object is deleted next, then the registry entry is removed;
  whether or not a storage delete fails, the answer is 200 and the entry is gone. A
  second delete of the same identifier succeeds as well, and after a metadata delete
  that did not fail no metadata is left to load.
\<close>

theorem C9_delete_job_best_effort:
  "fst (delete_job config jobId qb rawFault metaFault w) =
     Response 200 (P_Deleted ''Job deleted successfully'') \<and>
   jobs (snd (delete_job config jobId qb rawFault metaFault w)) = (jobs w)(jobId := None) \<and>
   trace (snd (delete_job config jobId qb rawFault metaFault w)) =
     trace w @ raw_delete_attempt config jobId qb w @
       [DeleteObject (delete_targetBucket config jobId qb w) (''jobs/'' @ jobId @ ''.json''),
        JobsDelete jobId] \<and>
   code (fst (delete_job config jobId qb' rawFault' metaFault'
                (snd (delete_job config jobId qb rawFault metaFault w)))) = 200 \<and>
   (metaFault = None \<longrightarrow>
      loadJobMetadata (s3 (snd (delete_job config jobId qb rawFault metaFault w)))
        (delete_targetBucket config jobId qb w) jobId = None)"
  using delete_job_metadata_gone [of metaFault config jobId qb rawFault w]
  by (simp add: delete_job_response delete_job_jobs delete_job_trace)

theorem C9_delete_job_best_effort_witness:
  "fst (delete_job demo_config ''job1'' (Some ''demo'') (Some ''access denied'') None
          restarted_world) = Response 200 (P_Deleted ''Job deleted successfully'') \<and>
   trace (snd (delete_job demo_config ''job1'' (Some ''demo'') (Some ''access denied'') None
                 restarted_world)) =
     [DeleteObject (Some ''demo'') ''results/x1.json'',
      DeleteObject (Some ''demo'') ''jobs/job1.json'', JobsDelete ''job1''] \<and>
   loadJobMetadata
     (s3 (snd (delete_job demo_config ''job1'' (Some ''demo'') (Some ''access denied'') None
                 restarted_world)))
     (Some ''demo'') ''job1'' = None \<and>
   trace (snd (delete_job demo_config ''job1'' (Some ''demo'') None None
                 (snd (delete_job demo_config ''job1'' (Some ''demo'') (Some ''access denied'')
                         None restarted_world)))) =
     [DeleteObject (Some ''demo'') ''results/x1.json'',
      DeleteObject (Some ''demo'') ''jobs/job1.json'', JobsDelete ''job1'',
      DeleteObject (Some ''demo'') ''jobs/job1.json'', JobsDelete ''job1'']"
proof -
  have search: "delete_searchBucket demo_config ''job1'' (Some ''demo'') restarted_world
      = Some ''demo''"
    by (simp add: delete_searchBucket_def restarted_world_def truthy_def)
  have loaded: "loadJobMetadata (s3 restarted_world) (Some ''demo'') ''job1''
      = Some (demo_meta ''job1'' completed ''2024-05-01'' (Some ''x1''))"
    by (simp add: loadJobMetadata_def s3_get_def restarted_world_def demo_store_def
        demo_meta_def truthy_def)
  have target: "delete_targetBucket demo_config ''job1'' (Some ''demo'') restarted_world
      = Some ''demo''"
    by (simp add: delete_targetBucket_def search loaded) (simp add: demo_meta_def truthy_def)
  have raw: "raw_delete_attempt demo_config ''job1'' (Some ''demo'') restarted_world
      = [DeleteObject (Some ''demo'') ''results/x1.json'']"
    by (simp add: raw_delete_attempt_def search loaded target)
      (simp add: demo_meta_def truthy_def delete_resultFileKey_def substring_def
        lastIndexOf_def tmpl_def)
  note first = C9_delete_job_best_effort [of demo_config "''job1''" "Some ''demo''"
      "Some ''access denied''" None restarted_world "Some ''demo''" None None]
  let ?w = "snd (delete_job demo_config ''job1'' (Some ''demo'') (Some ''access denied'') None
                   restarted_world)"
  have gone: "loadJobMetadata (s3 ?w) (Some ''demo'') ''job1'' = None"
    using first target by simp
  have search2: "delete_searchBucket demo_config ''job1'' (Some ''demo'') ?w = Some ''demo''"
    using first by (simp add: delete_searchBucket_def truthy_def)
  have target2: "delete_targetBucket demo_config ''job1'' (Some ''demo'') ?w = Some ''demo''"
    by (simp add: delete_targetBucket_def search2 gone)
  have raw2: "raw_delete_attempt demo_config ''job1'' (Some ''demo'') ?w = []"
    by (simp add: raw_delete_attempt_def search2 gone)
  have second: "trace (snd (delete_job demo_config ''job1'' (Some ''demo'') None None ?w)) =
      trace ?w @ [DeleteObject (Some ''demo'') ''jobs/job1.json'', JobsDelete ''job1'']"
    by (simp add: delete_job_trace raw2 target2)
  have start: "trace restarted_world = []"
    by (simp add: restarted_world_def)
  from first gone second raw target start show ?thesis by simp
qed

text \<open>
  C3 (as the claim states it, refuted). When the create handler responds, the registry
  entry of the new job is already at running, although the response says queued.
\<close>

theorem C3_registry_running_when_response_sent:
  "fst (analyze demo_config demo_body (demo_env (Inr ''token'')) empty_world) =
     Response 200 (P_Analyze ''job42'' queued ''a.mp4'' ''b.mp4'' ''results/job42.json'') \<and>
   registry_status (fst (snd (analyze demo_config demo_body (demo_env (Inr ''token''))
                                empty_world))) ''job42'' = Some running"
  by (simp add: analyze_def demo_config_def demo_body_def demo_env_def empty_world_def
      new_jobId_def new_resultKey_def registry_status_def jobs_set_def jobs_modify_def
      emit_def js_or_def truthy_def file_name_def split_pop_def digit_char_def Let_def)

text \<open>
  C3 (amended). For every create request that carries both keys, whose S3 URLs are
  accepted and for which the credential is obtained: the job is registered at queued
  and, in the same handler and before the response, set to running; the response is 200
  and reports queued; when the response is sent the registry shows running, and the
  background task has been started.
\<close>

theorem C3_create_reports_queued_registry_running:
  assumes "a_referenceKey body = Some r" and "a_distortedKey body = Some d"
    and "\<not> e_urlError env" and "e_token env = Inr t"
  shows "fst (analyze config body env w) =
      Response 200 (P_Analyze (new_jobId env) queued r d (new_resultKey body (new_jobId env))) \<and>
    statuses_of (new_jobId env) (trace (fst (snd (analyze config body env w)))) =
      statuses_of (new_jobId env) (trace w) @ [queued, running] \<and>
    registry_status (fst (snd (analyze config body env w))) (new_jobId env) = Some running \<and>
    map_option bg_jobId (snd (snd (analyze config body env w))) = Some (new_jobId env)"
  using assms
  by (simp add: analyze_def Let_def jobs_set_facts emit_facts jobs_modify_present
      statuses_of_append registry_status_def)

theorem C3_create_reports_queued_registry_running_witness:
  "a_referenceKey demo_body = Some ''a.mp4'' \<and> a_distortedKey demo_body = Some ''b.mp4'' \<and>
   \<not> e_urlError (demo_env (Inr ''token'')) \<and> e_token (demo_env (Inr ''token'')) = Inr ''token'' \<and>
   new_jobId (demo_env (Inr ''token'')) = ''job42'' \<and>
   statuses_of ''job42''
     (trace (fst (snd (analyze demo_config demo_body (demo_env (Inr ''token'')) empty_world))))
     = [queued, running] \<and>
   registry_status
     (fst (snd (analyze demo_config demo_body (demo_env (Inr ''token'')) empty_world))) ''job42''
     = Some running"
proof -
  have given: "a_referenceKey demo_body = Some ''a.mp4''" "a_distortedKey demo_body = Some ''b.mp4''"
    "\<not> e_urlError (demo_env (Inr ''token''))" "e_token (demo_env (Inr ''token'')) = Inr ''token''"
    by (simp_all add: demo_body_def demo_env_def)
  have name: "new_jobId (demo_env (Inr ''token'')) = ''job42''"
    by (simp add: new_jobId_def demo_env_def digit_char_def)
  have start: "trace empty_world = []"
    by (simp add: empty_world_def)
  from C3_create_reports_queued_registry_running [OF given, of demo_config empty_world]
    given name start show ?thesis by simp
qed




text \<open>
  C1 (the code departs from the claim). A job whose runner reports completion, and
  whose completed record the Storage Gateway fails to save, is written to the registry
  as completed and then as failed.
\<close>

theorem C1_completed_then_failed:
  "statuses_of ''job42''
     (trace (analyze_then_background demo_config demo_body (demo_env (Inr ''token''))
               completed_save_fails empty_world))
   = [queued, running, running, completed, failed]"
  by (simp add: analyze_then_background_def analyze_def demo_config_def demo_body_def
      demo_env_def empty_world_def completed_save_fails_def background_def background_try_def
      background_catch_def new_jobId_def new_resultKey_def jobs_set_def jobs_modify_def
      emit_def saveJobMetadata_def s3_put_def js_or_def truthy_def file_name_def split_pop_def
      digit_char_def Let_def extract_score_def s3_get_def poll_resultFileKey_def tmpl_def)

text \<open>
  C5 (the code departs from the claim). The error of the save that follows the
  transition to completed reaches the task's \<^verbatim>\<open>catch\<close> block, which overwrites the
  status: the registry entry ends as failed, with the storage error as its message, and
  the record then stored says failed.
\<close>

theorem C5_save_failure_overwrites_completed:
  "registry_status
     (analyze_then_background demo_config demo_body (demo_env (Inr ''token''))
        completed_save_fails empty_world) ''job42'' = Some failed \<and>
   registry_error
     (analyze_then_background demo_config demo_body (demo_env (Inr ''token''))
        completed_save_fails empty_world) ''job42'' = Some ''S3 unavailable'' \<and>
   stored_status
     (analyze_then_background demo_config demo_body (demo_env (Inr ''token''))
        completed_save_fails empty_world) ''demo'' ''job42'' = Some failed"
  by (simp add: analyze_then_background_def analyze_def demo_config_def demo_body_def
      demo_env_def empty_world_def completed_save_fails_def background_def background_try_def
      background_catch_def new_jobId_def new_resultKey_def jobs_set_def jobs_modify_def
      emit_def saveJobMetadata_def s3_put_def js_or_def truthy_def file_name_def split_pop_def
      digit_char_def Let_def extract_score_def s3_get_def poll_resultFileKey_def tmpl_def
      registry_status_def registry_error_def stored_status_def)

text \<open>
  C2 (the code departs from the claim). After a restart the registry is empty; the
  Metadata Store still holds the record of job1 (status completed), which loads, yet the
  status request is answered 404 "Job not found".
\<close>

theorem C2_status_ignores_metadata_store:
  "jobs restarted_world ''job1'' = None \<and>
   map_option m_status (loadJobMetadata (s3 restarted_world) (Some ''demo'') ''job1'')
     = Some completed \<and>
   fst (get_job_status ''job1'' (Inr ''token'') (Inr ''Completed'') restarted_world) =
     Response 404 (P_Error ''Job not found'')"
  by (simp add: get_job_status_def restarted_world_def loadJobMetadata_def s3_get_def
      demo_store_def demo_meta_def truthy_def)

end
